theory Spec2Isabelle
  imports Main
begin

section \<open>The geometry dump configuration script\<close>

text \<open>
  A shallow embedding of \<^verbatim>\<open>Fireworks/Geometry/python/dumpFWRecoGeometry_cfg.py\<close>.
  The script is written in Python 2. It mutates one global object, \<^verbatim>\<open>process\<close>, and
  writes to standard output; both are fields of an explicit state that every operation
  takes and returns. An exception is a value of type \<open>error\<close>, returned beside the state
  reached when it was raised.

  The framework classes the script calls (\<^verbatim>\<open>cms.Process\<close>, \<^verbatim>\<open>VarParsing\<close>,
  \<^verbatim>\<open>Enumerate\<close>, \<^verbatim>\<open>autoCond\<close>, \<^verbatim>\<open>GlobalTag\<close>) are not among the sources. The model
  records what the script asks of them: the name of every configuration fragment it loads,
  every attribute it assigns and every module it attaches, in the order of the source. What
  a loaded fragment contains, and what \<^verbatim>\<open>autoCond['mc']\<close> resolves to, stay symbolic.
\<close>

subsection \<open>Python values\<close>

datatype error = SystemExit int | AttributeError string

definition newline :: string where
  "newline = [CHR 0x0A]"

definition is_space :: "char \<Rightarrow> bool" where
  "is_space c = (c \<in> set [CHR '' '', CHR 0x09, CHR 0x0A, CHR 0x0B, CHR 0x0C, CHR 0x0D])"

text \<open>\<^verbatim>\<open>str.split()\<close> with no argument: the maximal runs of non-whitespace characters.\<close>

fun split_acc :: "string \<Rightarrow> string \<Rightarrow> string list" where
  "split_acc cur [] = (if cur = [] then [] else [cur])"
| "split_acc cur (c # cs) =
     (if is_space c then (if cur = [] then split_acc [] cs else cur # split_acc [] cs)
      else split_acc (cur @ [c]) cs)"

definition py_split :: "string \<Rightarrow> string list" where
  "py_split s = split_acc [] s"

text \<open>
  The Python 2 \<^verbatim>\<open>print\<close> statement writes its items in order. A space comes before every
  item but the first, unless the item before it was a non-empty string ending in a
  whitespace character other than the space; a newline ends the statement.
\<close>

definition softspace :: "string \<Rightarrow> bool" where
  "softspace s =
     (if s = [] then True else if last s = CHR '' '' then True else \<not> is_space (last s))"

fun print_items :: "string list \<Rightarrow> string" where
  "print_items [] = newline"
| "print_items [x] = x @ newline"
| "print_items (x # y # ys) = x @ (if softspace x then '' '' else []) @ print_items (y # ys)"

text \<open>
  \<^verbatim>\<open>repr\<close> of a string without quotes, backslashes or unprintable characters, and of a
  list of such strings.
\<close>

definition repr_str :: "string \<Rightarrow> string" where
  "repr_str s = [CHR 0x27] @ s @ [CHR 0x27]"

fun join :: "string \<Rightarrow> string list \<Rightarrow> string" where
  "join sep [] = []"
| "join sep [x] = x"
| "join sep (x # y # ys) = x @ sep @ join sep (y # ys)"

definition repr_list :: "string list \<Rightarrow> string" where
  "repr_list xs = ''['' @ join '', '' (map repr_str xs) @ '']''"

subsection \<open>The enumeration of scenario tags\<close>

text \<open>
  Modelled from the spec: the class \<^verbatim>\<open>FWCore.Utilities.Enumerate.Enumerate\<close> is not among
  the sources. The scenario tag is ``one of a fixed, closed set of string identifiers'' and the
  script builds the enumeration from the names separated by blanks, with no prefix: each
  name is an attribute whose key is the name itself, \<^verbatim>\<open>keys()\<close> lists the names in order,
  and \<^verbatim>\<open>valueForKey\<close> looks a key up among the attributes, giving \<^verbatim>\<open>None\<close> for an
  unknown one.
\<close>

record Enumerate =
  enum_keys :: "string list"
  enum_dict :: "(string \<times> string) list"

text \<open>
  Modelled from the spec: the constructor of \<^verbatim>\<open>Enumerate\<close>, which is not among the sources.
  The names are the words of its argument; each is its own key.
\<close>

definition Enumerate_init :: "string \<Rightarrow> Enumerate" where
  "Enumerate_init names =
     (let ns = py_split names in \<lparr>enum_keys = ns, enum_dict = map (\<lambda>n. (n, n)) ns\<rparr>)"

text \<open>
  Modelled from the spec: reading the attribute \<open>n\<close> of an \<^verbatim>\<open>Enumerate\<close>, which is not among
  the sources. It gives the key of the name \<open>n\<close>, and \<open>None\<close> stands for the
  \<^verbatim>\<open>AttributeError\<close> of a name the enumeration does not have.
\<close>

definition enum_attr :: "Enumerate \<Rightarrow> string \<Rightarrow> string option" where
  "enum_attr e n = map_of (enum_dict e) n"

text \<open>
  Modelled from the spec: the method \<^verbatim>\<open>Enumerate.valueForKey\<close>, which is not among the
  sources. It gives the identifier of a key, one of the closed set of scenario tags, and
  \<^verbatim>\<open>None\<close> for anything else.
\<close>

definition valueForKey :: "Enumerate \<Rightarrow> string \<Rightarrow> string option" where
  "valueForKey e k = map_of (enum_dict e) k"

definition varType :: Enumerate where
  "varType = Enumerate_init ''Run1 2015 2019 PhaseIPixel SLHCDB SLHC''"

subsection \<open>The job configuration object\<close>

datatype cms_value =
    cms_string string
  | cms_untracked_string string
  | cms_untracked_int32 int
  | cms_PSet "(string \<times> cms_value) list"
  | cms_untracked_PSet "(string \<times> cms_value) list"
  | cms_VPSet "cms_value list"

datatype cms_module =
    cms_Source string "(string \<times> cms_value) list"
  | cms_ESProducer string "(string \<times> cms_value) list"
  | cms_EDAnalyzer string "(string \<times> cms_value) list"

text \<open>
  What the script assigns to \<^verbatim>\<open>process.GlobalTag.globaltag\<close>: an entry of the
  framework's \<^verbatim>\<open>autoCond\<close> dictionary, a string literal, or the arguments it passes to
  the framework's \<^verbatim>\<open>GlobalTag\<close> function.
\<close>

datatype globaltag_value =
    autoCond string
  | str_literal string
  | by_GlobalTag string string

record GlobalTag_t =
  globaltag :: "globaltag_value option"
  toGet :: "cms_value option"

text \<open>
  Modelled from the spec: the function \<^verbatim>\<open>Configuration.AlCa.GlobalTag.GlobalTag\<close> is not
  among the sources. The selector attaches ``the conditions/global-tag setting'' of the tag: the
  function returns the conditions source it is given, with the global tag set from its
  second argument and its third argument, the custom conditions, kept beside it.
\<close>

definition GlobalTag_fn :: "GlobalTag_t \<Rightarrow> string \<Rightarrow> string \<Rightarrow> GlobalTag_t" where
  "GlobalTag_fn essource gt conditions = essource\<lparr>globaltag := Some (by_GlobalTag gt conditions)\<rparr>"

text \<open>
  Modelled from the spec: the class \<^verbatim>\<open>cms.Process\<close> is not among the sources. It is ``an external
  framework construct (process description) that this script mutates by attaching named
  module references and global-tag strings''. The record has one field for each attribute
  the script assigns, the list of the fragments given to \<^verbatim>\<open>load\<close> and the list of the
  modules given to \<^verbatim>\<open>add_\<close>. The attribute \<^verbatim>\<open>GlobalTag\<close> comes from the fragment loaded first
  in \<open>geoLoad\<close>; the script assigns to it only after that load.
\<close>

record Process =
  process_name :: string
  source :: "cms_module option"
  maxEvents :: "cms_value option"
  loaded :: "string list"
  GlobalTag :: GlobalTag_t
  trackerSLHCGeometry_applyAlignment :: "bool option"
  added :: "cms_module list"
  dump :: "cms_module option"
  path_p :: "cms_module list option"

text \<open>
  Modelled from the spec: the constructor of \<^verbatim>\<open>cms.Process\<close>, which is not among the sources.
  The object is ``constructed once, populated once'': it starts with its name and nothing
  attached.
\<close>

definition cms_Process :: "string \<Rightarrow> Process" where
  "cms_Process n =
     \<lparr>process_name = n, source = None, maxEvents = None, loaded = [],
      GlobalTag = \<lparr>globaltag = None, toGet = None\<rparr>,
      trackerSLHCGeometry_applyAlignment = None, added = [], dump = None, path_p = None\<rparr>"

text \<open>
  Modelled from the spec: the method \<^verbatim>\<open>Process.load\<close>, which is not among the sources. It is a
  ``module-load call'' that attaches a named module reference: the name is added to the end
  of the list of the loaded fragments.
\<close>

definition load :: "string \<Rightarrow> Process \<Rightarrow> Process" where
  "load fragment pr = pr\<lparr>loaded := loaded pr @ [fragment]\<rparr>"

text \<open>
  Modelled from the spec: the method \<^verbatim>\<open>Process.add_\<close>, which is not among the sources. It
  attaches a module that has no label: the module is added to the end of the list of such
  modules.
\<close>

definition add_module :: "cms_module \<Rightarrow> Process \<Rightarrow> Process" where
  "add_module m pr = pr\<lparr>added := added pr @ [m]\<rparr>"

text \<open>The assignments to \<^verbatim>\<open>process.GlobalTag.globaltag\<close> and \<^verbatim>\<open>process.GlobalTag.toGet\<close>.\<close>

definition set_globaltag :: "globaltag_value \<Rightarrow> Process \<Rightarrow> Process" where
  "set_globaltag v pr = pr\<lparr>GlobalTag := (GlobalTag pr)\<lparr>globaltag := Some v\<rparr>\<rparr>"

definition set_toGet :: "cms_value \<Rightarrow> Process \<Rightarrow> Process" where
  "set_toGet v pr = pr\<lparr>GlobalTag := (GlobalTag pr)\<lparr>toGet := Some v\<rparr>\<rparr>"

subsection \<open>The state of a run\<close>

record world =
  stdout :: string
  process :: Process

definition print :: "string list \<Rightarrow> world \<Rightarrow> world" where
  "print items w = w\<lparr>stdout := stdout w @ print_items items\<rparr>"

definition on_process :: "(Process \<Rightarrow> Process) \<Rightarrow> world \<Rightarrow> world" where
  "on_process f w = w\<lparr>process := f (process w)\<rparr>"

subsection \<open>\<^verbatim>\<open>help\<close> and \<^verbatim>\<open>geoLoad\<close>\<close>

definition help_fn :: "world \<Rightarrow> error option \<times> world" where
  "help_fn w0 =
     (let w = print [''Usage: cmsRun loadConditions.py  tag=TAG ''] w0;
          w = print [''   tag=tagname''] w;
          w = print [''       indentify geometry condition database tag''] w;
          w = print [''      '', repr_list (enum_keys varType)] w;
          w = print [''''] w;
          w = print [''   format=formatname''] w;
          w = print [''       dump in plain TTree or in TGeo format, default is TTree''] w;
          w = print [''''] w
      in (Some (SystemExit 1), w))"

definition toGet_SLHCDB :: cms_value where
  "toGet_SLHCDB = cms_VPSet
     [cms_PSet [(''record'', cms_string ''GeometryFileRcd''),
                (''tag'', cms_string ''XMLFILE_Geometry_428SLHCYV0_Phase1_R30F12_HCal_Ideal_mc''),
                (''connect'', cms_untracked_string ''frontier://FrontierProd/CMS_COND_42X_GEOMETRY'')],
      cms_PSet [(''record'', cms_string ''IdealGeometryRecord''),
                (''tag'', cms_string ''TKRECO_Geometry_428SLHCYV0''),
                (''connect'', cms_untracked_string ''frontier://FrontierProd/CMS_COND_42X_GEOMETRY'')],
      cms_PSet [(''record'', cms_string ''PGeometricDetExtraRcd''),
                (''tag'', cms_string ''TKExtra_Geometry_428SLHCYV0''),
                (''connect'', cms_untracked_string ''frontier://FrontierProd/CMS_COND_42X_GEOMETRY'')]]"

definition load_Run1 :: "Process \<Rightarrow> Process" where
  "load_Run1 pr =
     load ''Configuration.StandardSequences.Reconstruction_cff''
       (load ''Configuration.StandardSequences.GeometryDB_cff''
         (set_globaltag (autoCond ''mc'') pr))"

definition load_2015 :: "Process \<Rightarrow> Process" where
  "load_2015 pr =
     load ''Configuration.Geometry.GeometryExtended2015Reco_cff''
       (set_globaltag (autoCond ''mc'') pr)"

definition load_2019 :: "Process \<Rightarrow> Process" where
  "load_2019 pr =
     load ''Configuration.Geometry.GeometryExtended2019Reco_cff''
       (pr\<lparr>GlobalTag := GlobalTag_fn (GlobalTag pr) ''auto:upgrade2019'' ''''\<rparr>)"

definition load_PhaseIPixel :: "Process \<Rightarrow> Process" where
  "load_PhaseIPixel pr =
     load ''Configuration.Geometry.GeometryExtendedPhaseIPixelReco_cff''
       (pr\<lparr>GlobalTag := GlobalTag_fn (GlobalTag pr) ''auto:mc'' ''''\<rparr>)"

definition load_SLHCDB :: "Process \<Rightarrow> Process" where
  "load_SLHCDB pr =
     set_toGet toGet_SLHCDB
       (load ''Configuration.StandardSequences.Reconstruction_cff''
         (load ''Configuration.StandardSequences.GeometryDB_cff''
           (set_globaltag (str_literal ''DESIGN42_V17::All'') pr)))"

definition load_SLHC :: "Process \<Rightarrow> Process" where
  "load_SLHC pr =
     (load ''Configuration.StandardSequences.Reconstruction_cff''
       (load ''Configuration.Geometry.GeometrySLHCReco_cff''
         (load ''Configuration.Geometry.GeometrySLHCSimIdeal_cff''
           (set_globaltag (autoCond ''mc'')
             (set_globaltag (autoCond ''mc'') pr)))))
     \<lparr>trackerSLHCGeometry_applyAlignment := Some False\<rparr>"

text \<open>
  \<open>geoLoad\<close> follows the \<^verbatim>\<open>if\<close>/\<^verbatim>\<open>elif\<close> chain of the source. The last two tests read an
  attribute of \<open>varType\<close>, which raises \<^verbatim>\<open>AttributeError\<close> when the enumeration has no
  such name, and compare the tag with what \<^verbatim>\<open>valueForKey\<close> returns.
\<close>

definition geoLoad :: "string \<Rightarrow> world \<Rightarrow> error option \<times> world" where
  "geoLoad score w0 =
     (let w = on_process (load ''Configuration.StandardSequences.FrontierConditions_GlobalTag_cff'') w0
      in if score = ''Run1'' then (None, on_process load_Run1 w)
         else if score = ''2015'' then (None, on_process load_2015 w)
         else if score = ''2019'' then (None, on_process load_2019 w)
         else if score = ''PhaseIPixel'' then (None, on_process load_PhaseIPixel w)
         else (case enum_attr varType ''SLHCDB'' of
                 None \<Rightarrow> (Some (AttributeError ''SLHCDB''), w)
               | Some k1 \<Rightarrow>
                   if Some score = valueForKey varType k1 then (None, on_process load_SLHCDB w)
                   else (case enum_attr varType ''SLHC'' of
                           None \<Rightarrow> (Some (AttributeError ''SLHC''), w)
                         | Some k2 \<Rightarrow>
                             if Some score = valueForKey varType k2
                             then (None, on_process load_SLHC w)
                             else help_fn w)))"

subsection \<open>Command-line options\<close>

text \<open>
  Modelled from the spec: the class \<^verbatim>\<open>FWCore.ParameterSet.VarParsing.VarParsing\<close> is not among
  the sources. The interface is ``CLI-style key=value arguments: \<^verbatim>\<open>tag=<ScenarioTag>\<close> (default
  "2015"), \<^verbatim>\<open>format=<TTree|TGeo>\<close> (default "TTree")''. An option is registered under a name
  with a default, a multiplicity, a type and a help line; the command line is a map from
  keys to the values given for them; reading a registered option gives the value from the
  command line when its key is there and the default otherwise. Reading a name that was
  never registered gives \<open>None\<close>, the \<^verbatim>\<open>AttributeError\<close> of Python. The spec names no other
  argument, and the model gives none an effect.
\<close>

datatype multiplicity = singleton | list_of

datatype var_type = vt_bool | vt_int | vt_float | vt_string | vt_tagString

record opt_entry =
  opt_default :: string
  opt_mult :: multiplicity
  opt_type :: var_type
  opt_info :: string

record VarParsing =
  registered :: "(string \<times> opt_entry) list"
  arguments :: "string \<rightharpoonup> string"

text \<open>
  Modelled from the spec: the constructor of \<^verbatim>\<open>VarParsing\<close>, called with no argument, which
  is not among the sources. Nothing is registered and nothing has been parsed.
\<close>

definition VarParsing_init :: VarParsing where
  "VarParsing_init = \<lparr>registered = [], arguments = Map.empty\<rparr>"

text \<open>
  Modelled from the spec: the method \<^verbatim>\<open>VarParsing.register\<close>, which is not among the sources.
  It records the option with its default, multiplicity, type and help line.
\<close>

definition register ::
  "string \<Rightarrow> string \<Rightarrow> multiplicity \<Rightarrow> var_type \<Rightarrow> string \<Rightarrow> VarParsing \<Rightarrow> VarParsing" where
  "register n dflt mult vtype info opts =
     opts\<lparr>registered := registered opts @
       [(n, \<lparr>opt_default = dflt, opt_mult = mult, opt_type = vtype, opt_info = info\<rparr>)]\<rparr>"

text \<open>
  Modelled from the spec: the method \<^verbatim>\<open>VarParsing.parseArguments\<close>, which is not among the
  sources. It takes the \<^verbatim>\<open>key=value\<close> arguments of the command line, here a map from keys to
  values.
\<close>

definition parseArguments :: "(string \<rightharpoonup> string) \<Rightarrow> VarParsing \<Rightarrow> VarParsing" where
  "parseArguments argv opts = opts\<lparr>arguments := argv\<rparr>"

text \<open>
  Modelled from the spec: reading the attribute \<open>n\<close> of a \<^verbatim>\<open>VarParsing\<close>, which is not among
  the sources. A registered option has the value given on the command line, or its default
  when none was given.
\<close>

definition option_value :: "VarParsing \<Rightarrow> string \<Rightarrow> string option" where
  "option_value opts n =
     (case map_of (registered opts) n of
        None \<Rightarrow> None
      | Some e \<Rightarrow> (case arguments opts n of None \<Rightarrow> Some (opt_default e) | Some v \<Rightarrow> Some v))"

subsection \<open>The script\<close>

text \<open>Lines 77 to 92: the two options are registered and the command line is parsed.\<close>

definition options :: "(string \<rightharpoonup> string) \<Rightarrow> VarParsing" where
  "options argv =
     parseArguments argv
       (register ''format'' ''TTree'' singleton vt_string
          ''write a idToGeo map or make TGeo geometry''
          (register ''tag'' ''2015'' singleton vt_string
             ''info about geometry database conditions'' VarParsing_init))"

text \<open>
  Lines 104 to 116, for the values of \<^verbatim>\<open>options.format\<close> and \<^verbatim>\<open>options.tag\<close>. The variable
  \<^verbatim>\<open>tagInfoq\<close> of line 104 is never read. Line 116 reads \<^verbatim>\<open>process.dump\<close> back to build
  the path.
\<close>

definition output_wiring :: "string \<Rightarrow> string \<Rightarrow> Process \<Rightarrow> error option \<times> Process" where
  "output_wiring format tag pr0 =
     (let pr =
        (if format = ''TGeo''
         then (add_module (cms_ESProducer ''FWTGeoRecoGeometryESProducer'' []) pr0)
                \<lparr>dump := Some (cms_EDAnalyzer ''DumpFWTGeoRecoGeometry'' [])\<rparr>
         else (add_module (cms_ESProducer ''FWRecoGeometryESProducer'' []) pr0)
                \<lparr>dump := Some (cms_EDAnalyzer ''DumpFWRecoGeometry''
                   [(''level'', cms_untracked_int32 1),
                    (''tagInfo'', cms_untracked_string tag)])\<rparr>)
      in case dump pr of
           None \<Rightarrow> (Some (AttributeError ''dump''), pr)
         | Some d \<Rightarrow> (None, pr\<lparr>path_p := Some [d]\<rparr>))"

text \<open>
  A run of the script ends with the exception that stopped it, if any, the text written to
  standard output, and the \<^verbatim>\<open>process\<close> object as far as it was built. The object is handed
  to the framework when no exception was raised.
\<close>

record run =
  raised :: "error option"
  printed :: string
  configuration :: "Process option"

definition script :: "(string \<rightharpoonup> string) \<Rightarrow> run" where
  "script argv =
     (let opts = options argv in
      case option_value opts ''tag'' of
        None \<Rightarrow>
          \<lparr>raised = Some (AttributeError ''tag''),
           printed = ''Loading configuration for tag '', configuration = None\<rparr>
      | Some tag \<Rightarrow>
          (let out = print_items [''Loading configuration for tag '', tag, ''...'' @ newline];
               pr = cms_Process ''DUMP'';
               pr = pr\<lparr>source := Some (cms_Source ''EmptySource'' [])\<rparr>;
               pr = pr\<lparr>maxEvents := Some (cms_untracked_PSet [(''input'', cms_untracked_int32 1)])\<rparr>
           in case geoLoad tag \<lparr>stdout = out, process = pr\<rparr> of
                (Some e, w) \<Rightarrow>
                  \<lparr>raised = Some e, printed = stdout w, configuration = Some (process w)\<rparr>
              | (None, w) \<Rightarrow>
                  (case option_value opts ''format'' of
                     None \<Rightarrow>
                       \<lparr>raised = Some (AttributeError ''format''), printed = stdout w,
                        configuration = Some (process w)\<rparr>
                   | Some format \<Rightarrow>
                       (case output_wiring format tag (process w) of
                          (e, pr') \<Rightarrow>
                            \<lparr>raised = e, printed = stdout w, configuration = Some pr'\<rparr>))))"

section \<open>Properties\<close>

lemma varType_eq:
  "varType = \<lparr>enum_keys = [''Run1'', ''2015'', ''2019'', ''PhaseIPixel'', ''SLHCDB'', ''SLHC''],
              enum_dict = [(''Run1'', ''Run1''), (''2015'', ''2015''), (''2019'', ''2019''),
                           (''PhaseIPixel'', ''PhaseIPixel''), (''SLHCDB'', ''SLHCDB''),
                           (''SLHC'', ''SLHC'')]\<rparr>"
  by (simp add: varType_def Enumerate_init_def py_split_def is_space_def)

lemma attr_SLHCDB: "enum_attr varType ''SLHCDB'' = Some ''SLHCDB''"
  by (simp add: varType_eq enum_attr_def)

lemma attr_SLHC: "enum_attr varType ''SLHC'' = Some ''SLHC''"
  by (simp add: varType_eq enum_attr_def)

lemma value_SLHCDB: "valueForKey varType ''SLHCDB'' = Some ''SLHCDB''"
  by (simp add: varType_eq valueForKey_def)

lemma value_SLHC: "valueForKey varType ''SLHC'' = Some ''SLHC''"
  by (simp add: varType_eq valueForKey_def)

lemmas varType_lookups = attr_SLHCDB attr_SLHC value_SLHCDB value_SLHC

lemma keys_varType:
  "enum_keys varType = [''Run1'', ''2015'', ''2019'', ''PhaseIPixel'', ''SLHCDB'', ''SLHC'']"
  by (simp add: varType_eq)

subsection \<open>What each branch of \<open>geoLoad\<close> computes\<close>

lemma geoLoad_unknown:
  "score \<notin> set (enum_keys varType) \<Longrightarrow>
   geoLoad score w =
     help_fn (on_process (load ''Configuration.StandardSequences.FrontierConditions_GlobalTag_cff'') w)"
  by (simp add: geoLoad_def varType_lookups keys_varType)

lemma help_fn_eq:
  "help_fn w =
     (Some (SystemExit 1),
      w\<lparr>stdout := stdout w @
         ''Usage: cmsRun loadConditions.py  tag=TAG \<newline>   tag=tagname\<newline>       indentify geometry condition database tag\<newline>       ''
         @ repr_list [''Run1'', ''2015'', ''2019'', ''PhaseIPixel'', ''SLHCDB'', ''SLHC'']
         @ ''\<newline>\<newline>   format=formatname\<newline>       dump in plain TTree or in TGeo format, default is TTree\<newline>\<newline>''\<rparr>)"
  by (simp add: help_fn_def print_def keys_varType newline_def softspace_def is_space_def)

lemma geoLoad_Run1:
  "geoLoad ''Run1'' w =
     (None, on_process load_Run1
        (on_process (load ''Configuration.StandardSequences.FrontierConditions_GlobalTag_cff'') w))"
  by (simp add: geoLoad_def)

lemma geoLoad_2015:
  "geoLoad ''2015'' w =
     (None, on_process load_2015
        (on_process (load ''Configuration.StandardSequences.FrontierConditions_GlobalTag_cff'') w))"
  by (simp add: geoLoad_def)

lemma geoLoad_2019:
  "geoLoad ''2019'' w =
     (None, on_process load_2019
        (on_process (load ''Configuration.StandardSequences.FrontierConditions_GlobalTag_cff'') w))"
  by (simp add: geoLoad_def)

lemma geoLoad_PhaseIPixel:
  "geoLoad ''PhaseIPixel'' w =
     (None, on_process load_PhaseIPixel
        (on_process (load ''Configuration.StandardSequences.FrontierConditions_GlobalTag_cff'') w))"
  by (simp add: geoLoad_def)

lemma geoLoad_SLHCDB:
  "geoLoad ''SLHCDB'' w =
     (None, on_process load_SLHCDB
        (on_process (load ''Configuration.StandardSequences.FrontierConditions_GlobalTag_cff'') w))"
  by (simp add: geoLoad_def varType_lookups)

lemma geoLoad_SLHC:
  "geoLoad ''SLHC'' w =
     (None, on_process load_SLHC
        (on_process (load ''Configuration.StandardSequences.FrontierConditions_GlobalTag_cff'') w))"
  by (simp add: geoLoad_def varType_lookups)

lemmas geoLoad_known =
  geoLoad_Run1 geoLoad_2015 geoLoad_2019 geoLoad_PhaseIPixel geoLoad_SLHCDB geoLoad_SLHC

lemmas load_defs =
  load_Run1_def load_2015_def load_2019_def load_PhaseIPixel_def load_SLHCDB_def load_SLHC_def
  load_def set_globaltag_def set_toGet_def GlobalTag_fn_def on_process_def

lemma option_value_tag:
  "option_value (options argv) ''tag'' = Some (case argv ''tag'' of None \<Rightarrow> ''2015'' | Some v \<Rightarrow> v)"
  by (simp add: option_value_def options_def parseArguments_def register_def VarParsing_init_def
      split: option.split)

lemma option_value_format:
  "option_value (options argv) ''format'' =
     Some (case argv ''format'' of None \<Rightarrow> ''TTree'' | Some v \<Rightarrow> v)"
  by (simp add: option_value_def options_def parseArguments_def register_def VarParsing_init_def
      split: option.split)

lemma geoLoad_known_frame:
  assumes "score \<in> set (enum_keys varType)"
  shows "fst (geoLoad score w) = None
    \<and> stdout (snd (geoLoad score w)) = stdout w
    \<and> source (process (snd (geoLoad score w))) = source (process w)
    \<and> maxEvents (process (snd (geoLoad score w))) = maxEvents (process w)
    \<and> added (process (snd (geoLoad score w))) = added (process w)
    \<and> dump (process (snd (geoLoad score w))) = dump (process w)
    \<and> path_p (process (snd (geoLoad score w))) = path_p (process w)"
proof -
  from assms have "score = ''Run1'' \<or> score = ''2015'' \<or> score = ''2019''
    \<or> score = ''PhaseIPixel'' \<or> score = ''SLHCDB'' \<or> score = ''SLHC''"
    by (simp add: keys_varType)
  then show ?thesis
  proof (elim disjE)
    assume "score = ''Run1''"
    then show ?thesis by (simp add: geoLoad_Run1 load_defs)
  next
    assume "score = ''2015''"
    then show ?thesis by (simp add: geoLoad_2015 load_defs)
  next
    assume "score = ''2019''"
    then show ?thesis by (simp add: geoLoad_2019 load_defs)
  next
    assume "score = ''PhaseIPixel''"
    then show ?thesis by (simp add: geoLoad_PhaseIPixel load_defs)
  next
    assume "score = ''SLHCDB''"
    then show ?thesis by (simp add: geoLoad_SLHCDB load_defs)
  next
    assume "score = ''SLHC''"
    then show ?thesis by (simp add: geoLoad_SLHC load_defs)
  qed
qed

lemma script_known:
  assumes tag: "option_value (options argv) ''tag'' = Some tag"
    and known: "tag \<in> set (enum_keys varType)"
    and fmt: "option_value (options argv) ''format'' = Some format"
  shows "script argv =
     (let w = snd (geoLoad tag
                \<lparr>stdout = print_items [''Loading configuration for tag '', tag, ''...'' @ newline],
                 process = (cms_Process ''DUMP'')
                   \<lparr>source := Some (cms_Source ''EmptySource'' []),
                    maxEvents := Some (cms_untracked_PSet [(''input'', cms_untracked_int32 1)])\<rparr>\<rparr>)
      in \<lparr>raised = None, printed = stdout w,
          configuration = Some (snd (output_wiring format tag (process w)))\<rparr>)"
proof -
  let ?w0 = "\<lparr>stdout = print_items [''Loading configuration for tag '', tag, ''...'' @ newline],
                 process = (cms_Process ''DUMP'')
                   \<lparr>source := Some (cms_Source ''EmptySource'' []),
                    maxEvents := Some (cms_untracked_PSet [(''input'', cms_untracked_int32 1)])\<rparr>\<rparr>"
  from geoLoad_known_frame [OF known, of ?w0] have "fst (geoLoad tag ?w0) = None" by simp
  then obtain w where g: "geoLoad tag ?w0 = (None, w)" by (cases "geoLoad tag ?w0") simp
  have "fst (output_wiring format tag (process w)) = None"
    by (simp add: output_wiring_def add_module_def)
  then obtain pr' where ow: "output_wiring format tag (process w) = (None, pr')"
    by (cases "output_wiring format tag (process w)") simp
  show ?thesis
    using tag fmt g ow
    by (simp add: script_def Let_def del: print_items.simps split: prod.split)
qed

subsection \<open>The claims\<close>

text \<open>
  C1: \<open>geoLoad\<close> takes the error path, which ends in \<^verbatim>\<open>exit(1)\<close>, exactly when the tag is
  not one of the six names of \<open>varType\<close>; for each of the six it returns normally.
\<close>

theorem geoLoad_error_iff:
  "(fst (geoLoad score w) = Some (SystemExit 1)) =
     (score \<notin> {''Run1'', ''2015'', ''2019'', ''PhaseIPixel'', ''SLHCDB'', ''SLHC''})
   \<and> (fst (geoLoad score w) = None) =
     (score \<in> {''Run1'', ''2015'', ''2019'', ''PhaseIPixel'', ''SLHCDB'', ''SLHC''})
   \<and> set (enum_keys varType) = {''Run1'', ''2015'', ''2019'', ''PhaseIPixel'', ''SLHCDB'', ''SLHC''}"
  by (simp add: geoLoad_def varType_lookups keys_varType help_fn_def Let_def)

text \<open>
  C2: for a tag that is not a name of \<open>varType\<close>, \<open>geoLoad\<close> writes the usage text of
  \<^verbatim>\<open>help\<close> to standard output, after what was there, and raises \<^verbatim>\<open>SystemExit\<close> with
  status 1. The script does not catch it: a run whose tag option has such a value ends with
  exit status 1, its output being the line that announces the tag followed by the usage text.
\<close>

theorem unknown_tag_usage_exit:
  assumes "score \<notin> set (enum_keys varType)"
  shows "fst (geoLoad score w) = Some (SystemExit 1)
    \<and> stdout (snd (geoLoad score w)) = stdout w @
         ''Usage: cmsRun loadConditions.py  tag=TAG \<newline>   tag=tagname\<newline>       indentify geometry condition database tag\<newline>       ''
         @ repr_list [''Run1'', ''2015'', ''2019'', ''PhaseIPixel'', ''SLHCDB'', ''SLHC'']
         @ ''\<newline>\<newline>   format=formatname\<newline>       dump in plain TTree or in TGeo format, default is TTree\<newline>\<newline>''
    \<and> (option_value (options argv) ''tag'' = Some score \<longrightarrow>
         raised (script argv) = Some (SystemExit 1)
         \<and> printed (script argv) =
             print_items [''Loading configuration for tag '', score, ''...\<newline>''] @
         ''Usage: cmsRun loadConditions.py  tag=TAG \<newline>   tag=tagname\<newline>       indentify geometry condition database tag\<newline>       ''
         @ repr_list [''Run1'', ''2015'', ''2019'', ''PhaseIPixel'', ''SLHCDB'', ''SLHC'']
         @ ''\<newline>\<newline>   format=formatname\<newline>       dump in plain TTree or in TGeo format, default is TTree\<newline>\<newline>'')"
  using assms
  by (simp add: geoLoad_unknown help_fn_eq on_process_def script_def newline_def)

theorem unknown_tag_usage_exit_witness:
  "''Run2'' \<notin> set (enum_keys varType)
   \<and> option_value (options [''tag'' \<mapsto> ''Run2'']) ''tag'' = Some ''Run2''
   \<and> fst (geoLoad ''Run2'' \<lparr>stdout = [], process = cms_Process ''DUMP''\<rparr>) = Some (SystemExit 1)
   \<and> raised (script [''tag'' \<mapsto> ''Run2'']) = Some (SystemExit 1)
   \<and> printed (script [''tag'' \<mapsto> ''Run2'']) =
        ''Loading configuration for tag  Run2 ...\<newline>\<newline>Usage: cmsRun loadConditions.py  tag=TAG \<newline>   tag=tagname\<newline>       indentify geometry condition database tag\<newline>       ''
         @ repr_list [''Run1'', ''2015'', ''2019'', ''PhaseIPixel'', ''SLHCDB'', ''SLHC'']
         @ ''\<newline>\<newline>   format=formatname\<newline>       dump in plain TTree or in TGeo format, default is TTree\<newline>\<newline>''"
  using unknown_tag_usage_exit [of "''Run2''" "\<lparr>stdout = [], process = cms_Process ''DUMP''\<rparr>" "[''tag'' \<mapsto> ''Run2'']"]
  by (simp add: keys_varType option_value_tag softspace_def is_space_def newline_def)

text \<open>
  C3, as stated: for an unrecognised tag \<open>geoLoad\<close> leaves the \<^verbatim>\<open>process\<close> object as it
  found it. This fails: at the tag \<^verbatim>\<open>Run2\<close> the object of a fresh process has one fragment
  loaded when the exit is raised.
\<close>

theorem unknown_tag_not_unchanged:
  "''Run2'' \<notin> set (enum_keys varType)
   \<and> fst (geoLoad ''Run2'' \<lparr>stdout = [], process = cms_Process ''DUMP''\<rparr>) = Some (SystemExit 1)
   \<and> process (snd (geoLoad ''Run2'' \<lparr>stdout = [], process = cms_Process ''DUMP''\<rparr>))
       \<noteq> cms_Process ''DUMP''
   \<and> loaded (process (snd (geoLoad ''Run2'' \<lparr>stdout = [], process = cms_Process ''DUMP''\<rparr>)))
       = [''Configuration.StandardSequences.FrontierConditions_GlobalTag_cff'']"
  by (simp add: keys_varType geoLoad_unknown help_fn_eq on_process_def load_def cms_Process_def)

text \<open>
  C3, amended: for an unrecognised tag, the \<^verbatim>\<open>process\<close> object at the exit is the one \<open>geoLoad\<close>
  was called on with the fragment \<^verbatim>\<open>FrontierConditions_GlobalTag_cff\<close> loaded, and nothing
  more: no global tag is set and no geometry fragment is loaded.
\<close>

theorem unknown_tag_only_frontier:
  assumes "score \<notin> set (enum_keys varType)"
  shows "process (snd (geoLoad score w)) =
           (process w)\<lparr>loaded := loaded (process w) @
              [''Configuration.StandardSequences.FrontierConditions_GlobalTag_cff'']\<rparr>"
  using assms by (simp add: geoLoad_unknown help_fn_eq on_process_def load_def)

theorem unknown_tag_only_frontier_witness:
  "''Run2'' \<notin> set (enum_keys varType)
   \<and> process (snd (geoLoad ''Run2'' \<lparr>stdout = [], process = cms_Process ''DUMP''\<rparr>)) =
       (cms_Process ''DUMP'')\<lparr>loaded :=
          [''Configuration.StandardSequences.FrontierConditions_GlobalTag_cff'']\<rparr>"
  using unknown_tag_only_frontier [of "''Run2''" "\<lparr>stdout = [], process = cms_Process ''DUMP''\<rparr>"]
  by (simp add: keys_varType cms_Process_def)

text \<open>
  C4: the output wiring raises nothing and attaches exactly one producer and one analyzer.
  For the format \<^verbatim>\<open>TGeo\<close> they are \<^verbatim>\<open>FWTGeoRecoGeometryESProducer\<close> and
  \<^verbatim>\<open>DumpFWTGeoRecoGeometry\<close>; for every other string, \<^verbatim>\<open>TTree\<close> among them, they are
  \<^verbatim>\<open>FWRecoGeometryESProducer\<close> and \<^verbatim>\<open>DumpFWRecoGeometry\<close>.
\<close>

theorem output_wiring_pair:
  "output_wiring format tag pr =
     (None,
      if format = ''TGeo''
      then pr\<lparr>added := added pr @ [cms_ESProducer ''FWTGeoRecoGeometryESProducer'' []],
              dump := Some (cms_EDAnalyzer ''DumpFWTGeoRecoGeometry'' []),
              path_p := Some [cms_EDAnalyzer ''DumpFWTGeoRecoGeometry'' []]\<rparr>
      else pr\<lparr>added := added pr @ [cms_ESProducer ''FWRecoGeometryESProducer'' []],
              dump := Some (cms_EDAnalyzer ''DumpFWRecoGeometry''
                       [(''level'', cms_untracked_int32 1), (''tagInfo'', cms_untracked_string tag)]),
              path_p := Some [cms_EDAnalyzer ''DumpFWRecoGeometry''
                       [(''level'', cms_untracked_int32 1), (''tagInfo'', cms_untracked_string tag)]]\<rparr>)"
  by (simp add: output_wiring_def add_module_def)

text \<open>
  C5: with no \<^verbatim>\<open>tag\<close> argument on the command line the tag option reads \<^verbatim>\<open>2015\<close>, with no
  \<^verbatim>\<open>format\<close> argument the format option reads \<^verbatim>\<open>TTree\<close>; the two options, and no other,
  are registered, each as a singleton of type string.
\<close>

theorem option_defaults:
  "(argv ''tag'' = None \<longrightarrow> option_value (options argv) ''tag'' = Some ''2015'')
   \<and> (argv ''format'' = None \<longrightarrow> option_value (options argv) ''format'' = Some ''TTree'')
   \<and> map_of (registered (options argv)) ''tag'' =
        Some \<lparr>opt_default = ''2015'', opt_mult = singleton, opt_type = vt_string,
              opt_info = ''info about geometry database conditions''\<rparr>
   \<and> map_of (registered (options argv)) ''format'' =
        Some \<lparr>opt_default = ''TTree'', opt_mult = singleton, opt_type = vt_string,
              opt_info = ''write a idToGeo map or make TGeo geometry''\<rparr>
   \<and> map fst (registered (options argv)) = [''tag'', ''format'']"
  by (simp add: option_value_tag option_value_format)
     (simp add: options_def parseArguments_def register_def VarParsing_init_def)

theorem option_defaults_witness:
  "option_value (options Map.empty) ''tag'' = Some ''2015''
   \<and> option_value (options Map.empty) ''format'' = Some ''TTree''
   \<and> option_value (options [''format'' \<mapsto> ''TGeo'']) ''tag'' = Some ''2015''
   \<and> option_value (options [''tag'' \<mapsto> ''SLHC'']) ''format'' = Some ''TTree''"
  using option_defaults [of Map.empty] option_defaults [of "[''format'' \<mapsto> ''TGeo'']"]
    option_defaults [of "[''tag'' \<mapsto> ''SLHC'']"]
  by simp

text \<open>
  C6: what \<open>geoLoad\<close> does for each of the six tags. Each returns normally, leaves standard
  output alone and changes the \<^verbatim>\<open>process\<close> object as follows, the conditions fragment being
  loaded first in every case. \<^verbatim>\<open>Run1\<close>: global tag \<^verbatim>\<open>autoCond['mc']\<close>, fragments
  \<^verbatim>\<open>GeometryDB_cff\<close> and \<^verbatim>\<open>Reconstruction_cff\<close>. \<^verbatim>\<open>2015\<close>: global tag
  \<^verbatim>\<open>autoCond['mc']\<close>, fragment \<^verbatim>\<open>GeometryExtended2015Reco_cff\<close>. \<^verbatim>\<open>2019\<close>: \<^verbatim>\<open>GlobalTag\<close>
  called with \<^verbatim>\<open>auto:upgrade2019\<close>, fragment \<^verbatim>\<open>GeometryExtended2019Reco_cff\<close>.
  \<^verbatim>\<open>PhaseIPixel\<close>: \<^verbatim>\<open>GlobalTag\<close> called with \<^verbatim>\<open>auto:mc\<close>, fragment
  \<^verbatim>\<open>GeometryExtendedPhaseIPixelReco_cff\<close>. \<^verbatim>\<open>SLHCDB\<close>: global tag
  \<^verbatim>\<open>DESIGN42_V17::All\<close>, fragments \<^verbatim>\<open>GeometryDB_cff\<close> and \<^verbatim>\<open>Reconstruction_cff\<close>, and a
  \<^verbatim>\<open>toGet\<close> list of three records, \<^verbatim>\<open>GeometryFileRcd\<close>, \<^verbatim>\<open>IdealGeometryRecord\<close> and
  \<^verbatim>\<open>PGeometricDetExtraRcd\<close>. \<^verbatim>\<open>SLHC\<close>: global tag \<^verbatim>\<open>autoCond['mc']\<close>, fragments
  \<^verbatim>\<open>GeometrySLHCSimIdeal_cff\<close>, \<^verbatim>\<open>GeometrySLHCReco_cff\<close> and \<^verbatim>\<open>Reconstruction_cff\<close>, and
  \<^verbatim>\<open>trackerSLHCGeometry.applyAlignment\<close> set to \<^verbatim>\<open>False\<close>.
\<close>

theorem geoLoad_tag_table:
  "geoLoad ''Run1'' w =
     (None, w\<lparr>process := (process w)
        \<lparr>loaded := loaded (process w) @
           [''Configuration.StandardSequences.FrontierConditions_GlobalTag_cff'',
            ''Configuration.StandardSequences.GeometryDB_cff'',
            ''Configuration.StandardSequences.Reconstruction_cff''],
         GlobalTag := (GlobalTag (process w))\<lparr>globaltag := Some (autoCond ''mc'')\<rparr>\<rparr>\<rparr>)
   \<and> geoLoad ''2015'' w =
     (None, w\<lparr>process := (process w)
        \<lparr>loaded := loaded (process w) @
           [''Configuration.StandardSequences.FrontierConditions_GlobalTag_cff'',
            ''Configuration.Geometry.GeometryExtended2015Reco_cff''],
         GlobalTag := (GlobalTag (process w))\<lparr>globaltag := Some (autoCond ''mc'')\<rparr>\<rparr>\<rparr>)
   \<and> geoLoad ''2019'' w =
     (None, w\<lparr>process := (process w)
        \<lparr>loaded := loaded (process w) @
           [''Configuration.StandardSequences.FrontierConditions_GlobalTag_cff'',
            ''Configuration.Geometry.GeometryExtended2019Reco_cff''],
         GlobalTag := GlobalTag_fn (GlobalTag (process w)) ''auto:upgrade2019'' ''''\<rparr>\<rparr>)
   \<and> geoLoad ''PhaseIPixel'' w =
     (None, w\<lparr>process := (process w)
        \<lparr>loaded := loaded (process w) @
           [''Configuration.StandardSequences.FrontierConditions_GlobalTag_cff'',
            ''Configuration.Geometry.GeometryExtendedPhaseIPixelReco_cff''],
         GlobalTag := GlobalTag_fn (GlobalTag (process w)) ''auto:mc'' ''''\<rparr>\<rparr>)
   \<and> geoLoad ''SLHCDB'' w =
     (None, w\<lparr>process := (process w)
        \<lparr>loaded := loaded (process w) @
           [''Configuration.StandardSequences.FrontierConditions_GlobalTag_cff'',
            ''Configuration.StandardSequences.GeometryDB_cff'',
            ''Configuration.StandardSequences.Reconstruction_cff''],
         GlobalTag := (GlobalTag (process w))
           \<lparr>globaltag := Some (str_literal ''DESIGN42_V17::All''),
            toGet := Some (cms_VPSet
              [cms_PSet [(''record'', cms_string ''GeometryFileRcd''),
                         (''tag'', cms_string ''XMLFILE_Geometry_428SLHCYV0_Phase1_R30F12_HCal_Ideal_mc''),
                         (''connect'', cms_untracked_string ''frontier://FrontierProd/CMS_COND_42X_GEOMETRY'')],
               cms_PSet [(''record'', cms_string ''IdealGeometryRecord''),
                         (''tag'', cms_string ''TKRECO_Geometry_428SLHCYV0''),
                         (''connect'', cms_untracked_string ''frontier://FrontierProd/CMS_COND_42X_GEOMETRY'')],
               cms_PSet [(''record'', cms_string ''PGeometricDetExtraRcd''),
                         (''tag'', cms_string ''TKExtra_Geometry_428SLHCYV0''),
                         (''connect'', cms_untracked_string ''frontier://FrontierProd/CMS_COND_42X_GEOMETRY'')]])\<rparr>\<rparr>\<rparr>)
   \<and> geoLoad ''SLHC'' w =
     (None, w\<lparr>process := (process w)
        \<lparr>loaded := loaded (process w) @
           [''Configuration.StandardSequences.FrontierConditions_GlobalTag_cff'',
            ''Configuration.Geometry.GeometrySLHCSimIdeal_cff'',
            ''Configuration.Geometry.GeometrySLHCReco_cff'',
            ''Configuration.StandardSequences.Reconstruction_cff''],
         GlobalTag := (GlobalTag (process w))\<lparr>globaltag := Some (autoCond ''mc'')\<rparr>,
         trackerSLHCGeometry_applyAlignment := Some False\<rparr>\<rparr>)"
proof -
  have r1: "geoLoad ''Run1'' w =
     (None, w\<lparr>process := (process w)
        \<lparr>loaded := loaded (process w) @
           [''Configuration.StandardSequences.FrontierConditions_GlobalTag_cff'',
            ''Configuration.StandardSequences.GeometryDB_cff'',
            ''Configuration.StandardSequences.Reconstruction_cff''],
         GlobalTag := (GlobalTag (process w))\<lparr>globaltag := Some (autoCond ''mc'')\<rparr>\<rparr>\<rparr>)"
    by (simp add: geoLoad_Run1 load_defs)
  have r2: "geoLoad ''2015'' w =
     (None, w\<lparr>process := (process w)
        \<lparr>loaded := loaded (process w) @
           [''Configuration.StandardSequences.FrontierConditions_GlobalTag_cff'',
            ''Configuration.Geometry.GeometryExtended2015Reco_cff''],
         GlobalTag := (GlobalTag (process w))\<lparr>globaltag := Some (autoCond ''mc'')\<rparr>\<rparr>\<rparr>)"
    by (simp add: geoLoad_2015 load_defs)
  have r3: "geoLoad ''2019'' w =
     (None, w\<lparr>process := (process w)
        \<lparr>loaded := loaded (process w) @
           [''Configuration.StandardSequences.FrontierConditions_GlobalTag_cff'',
            ''Configuration.Geometry.GeometryExtended2019Reco_cff''],
         GlobalTag := GlobalTag_fn (GlobalTag (process w)) ''auto:upgrade2019'' ''''\<rparr>\<rparr>)"
    by (simp add: geoLoad_2019 load_defs)
  have r4: "geoLoad ''PhaseIPixel'' w =
     (None, w\<lparr>process := (process w)
        \<lparr>loaded := loaded (process w) @
           [''Configuration.StandardSequences.FrontierConditions_GlobalTag_cff'',
            ''Configuration.Geometry.GeometryExtendedPhaseIPixelReco_cff''],
         GlobalTag := GlobalTag_fn (GlobalTag (process w)) ''auto:mc'' ''''\<rparr>\<rparr>)"
    by (simp add: geoLoad_PhaseIPixel load_defs)
  have r5: "geoLoad ''SLHCDB'' w =
     (None, w\<lparr>process := (process w)
        \<lparr>loaded := loaded (process w) @
           [''Configuration.StandardSequences.FrontierConditions_GlobalTag_cff'',
            ''Configuration.StandardSequences.GeometryDB_cff'',
            ''Configuration.StandardSequences.Reconstruction_cff''],
         GlobalTag := (GlobalTag (process w))
           \<lparr>globaltag := Some (str_literal ''DESIGN42_V17::All''),
            toGet := Some (cms_VPSet
              [cms_PSet [(''record'', cms_string ''GeometryFileRcd''),
                         (''tag'', cms_string ''XMLFILE_Geometry_428SLHCYV0_Phase1_R30F12_HCal_Ideal_mc''),
                         (''connect'', cms_untracked_string ''frontier://FrontierProd/CMS_COND_42X_GEOMETRY'')],
               cms_PSet [(''record'', cms_string ''IdealGeometryRecord''),
                         (''tag'', cms_string ''TKRECO_Geometry_428SLHCYV0''),
                         (''connect'', cms_untracked_string ''frontier://FrontierProd/CMS_COND_42X_GEOMETRY'')],
               cms_PSet [(''record'', cms_string ''PGeometricDetExtraRcd''),
                         (''tag'', cms_string ''TKExtra_Geometry_428SLHCYV0''),
                         (''connect'', cms_untracked_string ''frontier://FrontierProd/CMS_COND_42X_GEOMETRY'')]])\<rparr>\<rparr>\<rparr>)"
    by (simp add: geoLoad_SLHCDB load_defs toGet_SLHCDB_def)
  have r6: "geoLoad ''SLHC'' w =
     (None, w\<lparr>process := (process w)
        \<lparr>loaded := loaded (process w) @
           [''Configuration.StandardSequences.FrontierConditions_GlobalTag_cff'',
            ''Configuration.Geometry.GeometrySLHCSimIdeal_cff'',
            ''Configuration.Geometry.GeometrySLHCReco_cff'',
            ''Configuration.StandardSequences.Reconstruction_cff''],
         GlobalTag := (GlobalTag (process w))\<lparr>globaltag := Some (autoCond ''mc'')\<rparr>,
         trackerSLHCGeometry_applyAlignment := Some False\<rparr>\<rparr>)"
    by (simp add: geoLoad_SLHC load_defs)
  from r1 r2 r3 r4 r5 r6 show ?thesis by (intro conjI)
qed

text \<open>
  C7: when the tag option is one of the six names, whatever the format option, the script
  raises nothing and the \<^verbatim>\<open>process\<close> object it ends with describes a pipeline of one event:
  the source is an \<^verbatim>\<open>EmptySource\<close>, \<^verbatim>\<open>maxEvents.input\<close> is 1, and the path \<^verbatim>\<open>p\<close> holds the
  module \<^verbatim>\<open>dump\<close> and nothing else.
\<close>

theorem one_event_pipeline:
  assumes "option_value (options argv) ''tag'' = Some tag"
    and "tag \<in> set (enum_keys varType)"
  shows "\<exists>pr d. raised (script argv) = None
    \<and> configuration (script argv) = Some pr
    \<and> source pr = Some (cms_Source ''EmptySource'' [])
    \<and> maxEvents pr = Some (cms_untracked_PSet [(''input'', cms_untracked_int32 1)])
    \<and> dump pr = Some d
    \<and> path_p pr = Some [d]"
proof -
  obtain format where fmt: "option_value (options argv) ''format'' = Some format"
    by (simp add: option_value_format)
  let ?w0 = "\<lparr>stdout = print_items [''Loading configuration for tag '', tag, ''...'' @ newline],
              process = (cms_Process ''DUMP'')
                \<lparr>source := Some (cms_Source ''EmptySource'' []),
                 maxEvents := Some (cms_untracked_PSet [(''input'', cms_untracked_int32 1)])\<rparr>\<rparr>"
  let ?pr = "process (snd (geoLoad tag ?w0))"
  have run: "raised (script argv) = None"
    "configuration (script argv) = Some (snd (output_wiring format tag ?pr))"
    by (simp_all add: script_known [OF assms fmt] Let_def)
  have frame: "source ?pr = Some (cms_Source ''EmptySource'' [])"
    "maxEvents ?pr = Some (cms_untracked_PSet [(''input'', cms_untracked_int32 1)])"
    using geoLoad_known_frame [OF assms(2), of ?w0] by simp_all
  have wired: "source (snd (output_wiring format tag ?pr)) = source ?pr"
    "maxEvents (snd (output_wiring format tag ?pr)) = maxEvents ?pr"
    "\<exists>d. dump (snd (output_wiring format tag ?pr)) = Some d
       \<and> path_p (snd (output_wiring format tag ?pr)) = Some [d]"
    by (simp_all add: output_wiring_def add_module_def)
  from run frame wired show ?thesis by auto
qed

theorem one_event_pipeline_witness:
  "option_value (options [''tag'' \<mapsto> ''SLHC'', ''format'' \<mapsto> ''TGeo'']) ''tag'' = Some ''SLHC''
   \<and> ''SLHC'' \<in> set (enum_keys varType)
   \<and> (\<exists>pr d. raised (script [''tag'' \<mapsto> ''SLHC'', ''format'' \<mapsto> ''TGeo'']) = None
    \<and> configuration (script [''tag'' \<mapsto> ''SLHC'', ''format'' \<mapsto> ''TGeo'']) = Some pr
    \<and> source pr = Some (cms_Source ''EmptySource'' [])
    \<and> maxEvents pr = Some (cms_untracked_PSet [(''input'', cms_untracked_int32 1)])
    \<and> dump pr = Some d
    \<and> path_p pr = Some [d])"
proof -
  have t: "option_value (options [''tag'' \<mapsto> ''SLHC'', ''format'' \<mapsto> ''TGeo'']) ''tag'' = Some ''SLHC''"
    by (simp add: option_value_tag)
  have k: "''SLHC'' \<in> set (enum_keys varType)"
    by (simp add: keys_varType)
  from t k one_event_pipeline [OF t k] show ?thesis by (intro conjI)
qed

text \<open>
  C8: \<open>geoLoad\<close> loads \<^verbatim>\<open>Configuration.StandardSequences.FrontierConditions_GlobalTag_cff\<close>
  for every tag, recognised or not, and before anything else it loads: in the list of the
  loaded fragments it comes right after those that were there at the call.
\<close>

theorem frontier_loaded_first:
  "\<exists>rest. loaded (process (snd (geoLoad score w))) =
      loaded (process w) @
        ''Configuration.StandardSequences.FrontierConditions_GlobalTag_cff'' # rest"
proof (cases "score \<in> set (enum_keys varType)")
  case False
  then show ?thesis
    by (simp add: geoLoad_unknown help_fn_eq on_process_def load_def)
next
  case True
  then have "score = ''Run1'' \<or> score = ''2015'' \<or> score = ''2019''
    \<or> score = ''PhaseIPixel'' \<or> score = ''SLHCDB'' \<or> score = ''SLHC''"
    by (simp add: keys_varType)
  then show ?thesis
  proof (elim disjE)
    assume "score = ''Run1''"
    then show ?thesis by (simp add: geoLoad_Run1 load_defs)
  next
    assume "score = ''2015''"
    then show ?thesis by (simp add: geoLoad_2015 load_defs)
  next
    assume "score = ''2019''"
    then show ?thesis by (simp add: geoLoad_2019 load_defs)
  next
    assume "score = ''PhaseIPixel''"
    then show ?thesis by (simp add: geoLoad_PhaseIPixel load_defs)
  next
    assume "score = ''SLHCDB''"
    then show ?thesis by (simp add: geoLoad_SLHCDB load_defs)
  next
    assume "score = ''SLHC''"
    then show ?thesis by (simp add: geoLoad_SLHC load_defs)
  qed
qed

text \<open>
  C9: in a run that reaches the output wiring, the analyzer \<^verbatim>\<open>dump\<close> has the parameters
  \<^verbatim>\<open>level\<close>, equal to 1, and \<^verbatim>\<open>tagInfo\<close>, equal to the tag option, when the format is not
  \<^verbatim>\<open>TGeo\<close>; for the format \<^verbatim>\<open>TGeo\<close> it is \<^verbatim>\<open>DumpFWTGeoRecoGeometry\<close> with no parameter
  at all, so the tag is not in it.
\<close>

theorem tagInfo_only_on_default_path:
  assumes "option_value (options argv) ''tag'' = Some tag"
    and "tag \<in> set (enum_keys varType)"
    and "option_value (options argv) ''format'' = Some format"
  shows "\<exists>pr. configuration (script argv) = Some pr
    \<and> dump pr = Some
         (if format = ''TGeo'' then cms_EDAnalyzer ''DumpFWTGeoRecoGeometry'' []
          else cms_EDAnalyzer ''DumpFWRecoGeometry''
                 [(''level'', cms_untracked_int32 1), (''tagInfo'', cms_untracked_string tag)])"
  by (simp add: script_known [OF assms] Let_def output_wiring_def add_module_def)

theorem tagInfo_only_on_default_path_witness:
  "(\<exists>pr. configuration (script [''tag'' \<mapsto> ''2019'']) = Some pr
      \<and> dump pr = Some (cms_EDAnalyzer ''DumpFWRecoGeometry''
           [(''level'', cms_untracked_int32 1), (''tagInfo'', cms_untracked_string ''2019'')]))
   \<and> (\<exists>pr. configuration (script [''tag'' \<mapsto> ''2019'', ''format'' \<mapsto> ''TGeo'']) = Some pr
      \<and> dump pr = Some (cms_EDAnalyzer ''DumpFWTGeoRecoGeometry'' []))"
proof -
  have k: "''2019'' \<in> set (enum_keys varType)"
    by (simp add: keys_varType)
  have t1: "option_value (options [''tag'' \<mapsto> ''2019'']) ''tag'' = Some ''2019''"
    and f1: "option_value (options [''tag'' \<mapsto> ''2019'']) ''format'' = Some ''TTree''"
    and t2: "option_value (options [''tag'' \<mapsto> ''2019'', ''format'' \<mapsto> ''TGeo'']) ''tag'' = Some ''2019''"
    and f2: "option_value (options [''tag'' \<mapsto> ''2019'', ''format'' \<mapsto> ''TGeo'']) ''format'' = Some ''TGeo''"
    by (simp_all add: option_value_tag option_value_format)
  from tagInfo_only_on_default_path [OF t1 k f1] tagInfo_only_on_default_path [OF t2 k f2]
  show ?thesis by simp
qed

end
